theory Spec2Isabelle
  imports Complex_Main "HOL-Library.Word"
begin

section \<open>Python values and console output\<close>

text \<open>
  The values \<open>json.loads\<close> produces and \<open>json.dumps\<close> consumes. A dict is kept as
  an association list (each key once, as in a Python dict).
\<close>

datatype pyval =
    PNone
  | PBool bool
  | PInt int
  | PFloat real
  | PStr string
  | PList "pyval list"
  | PDict "(string \<times> pyval) list"

text \<open>Python truth value, as tested by \<open>if x:\<close>.\<close>

fun truthy :: "pyval \<Rightarrow> bool" where
  "truthy PNone = False"
| "truthy (PBool b) = b"
| "truthy (PInt i) = (i \<noteq> 0)"
| "truthy (PFloat x) = (x \<noteq> 0)"
| "truthy (PStr s) = (s \<noteq> [])"
| "truthy (PList xs) = (xs \<noteq> [])"
| "truthy (PDict d) = (d \<noteq> [])"

text \<open>\<open>type(v).__name__\<close>, as it appears in the text of an AttributeError.\<close>

fun type_name :: "pyval \<Rightarrow> string" where
  "type_name PNone = ''NoneType''"
| "type_name (PBool b) = ''bool''"
| "type_name (PInt i) = ''int''"
| "type_name (PFloat x) = ''float''"
| "type_name (PStr s) = ''str''"
| "type_name (PList xs) = ''list''"
| "type_name (PDict d) = ''dict''"

text \<open>\<open>d.get(k, default)\<close> on a dict.\<close>

definition dict_get :: "(string \<times> pyval) list \<Rightarrow> string \<Rightarrow> pyval \<Rightarrow> pyval" where
  "dict_get d k dflt = (case map_of d k of None \<Rightarrow> dflt | Some v \<Rightarrow> v)"

text \<open>
  What is raised: any subclass of \<open>Exception\<close> with its message, or one of the two
  \<open>BaseException\<close>s that \<open>except Exception\<close> does not catch.
\<close>

datatype raised = Exc string | CancelledError | KeyboardInterrupt

datatype outcome = Returned | Raised raised

text \<open>
  The message of the AttributeError raised by \<open>v.name\<close> on a value that has no
  such attribute.
\<close>

definition attribute_error :: "pyval \<Rightarrow> string \<Rightarrow> string" where
  "attribute_error v name =
     [CHR 0x27] @ type_name v @ [CHR 0x27] @ '' object has no attribute '' @
     [CHR 0x27] @ name @ [CHR 0x27]"

text \<open>
  The console is a sequence of chunks of text. A chunk is literal text, or the text
  \<open>str(v)\<close> of a Python value \<open>v\<close> that is not a string (the characters Python
  chooses for numbers, lists and dicts are not modelled; a string prints as itself).
\<close>

datatype chunk = Lit string | Str_of pyval

fun py_str :: "pyval \<Rightarrow> chunk" where
  "py_str (PStr s) = Lit s"
| "py_str v = Str_of v"

abbreviation nl :: string where
  "nl \<equiv> [CHR 0x0A]"

text \<open>
  \<open>print(a1, ..., an, end=e)\<close>: the arguments separated by one space, then \<open>e\<close>.
  An argument is a list of chunks, so that an f-string is one argument.
\<close>

fun sep_args :: "chunk list list \<Rightarrow> chunk list" where
  "sep_args [] = []"
| "sep_args [a] = a"
| "sep_args (a # b # r) = a @ Lit '' '' # sep_args (b # r)"

definition print :: "chunk list list \<Rightarrow> string \<Rightarrow> chunk list" where
  "print args e = sep_args args @ [Lit e]"

section \<open>Downlink: \<open>handle_websocket_messages\<close>\<close>

text \<open>
  An inbound message, given by what \<open>json.loads\<close> makes of it: the value it decodes
  to; text on which it raises \<open>JSONDecodeError\<close>; or a message on which it raises
  another \<open>Exception\<close>, kept with the exception's text (\<open>RecursionError\<close> on
  brackets nested too deep, \<open>UnicodeDecodeError\<close> on a binary frame that is not UTF-8).
\<close>

datatype wire = Json_text pyval | Bad_text string | Loads_raises string

datatype loads_failure = JSONDecodeError | Other_exception string

fun json_loads :: "wire \<Rightarrow> loads_failure + pyval" where
  "json_loads (Json_text v) = Inr v"
| "json_loads (Bad_text s) = Inl JSONDecodeError"
| "json_loads (Loads_raises e) = Inl (Other_exception e)"

definition inbox_emoji :: string where
  "inbox_emoji = [CHR 0xF0, CHR 0x9F, CHR 0x93, CHR 0xA5]"

definition envelope_emoji :: string where
  "envelope_emoji = [CHR 0xF0, CHR 0x9F, CHR 0x93, CHR 0xA8]"

text \<open>
  The \<open>if\<close>/\<open>elif\<close> chain on \<open>event_type\<close> (source lines 124 to 155), for a dict
  \<open>d\<close> whose type has been read already.
\<close>

definition dispatch :: "(string \<times> pyval) list \<Rightarrow> pyval \<Rightarrow> chunk list" where
  "dispatch d event_type =
     (if event_type = PStr ''conversation.item.input_audio_transcription.delta'' then
        (let transcript_piece = dict_get d ''delta'' (PStr '''') in
         if truthy transcript_piece then print [[py_str transcript_piece]] '' '' else [])
      else if event_type = PStr ''conversation.item.input_audio_transcription.completed'' then
        (let transcript = dict_get d ''transcript'' (PStr '''') in
         if truthy transcript then print [[Lit nl, py_str transcript]] nl else [])
      else if event_type = PStr ''response.text.delta'' then
        (let delta_text = dict_get d ''delta'' (PStr '''') in
         if truthy delta_text then print [[Lit (inbox_emoji @ '': ''), py_str delta_text]] nl
         else [])
      else if event_type = PStr ''response.text.done'' then
        (let final_text = dict_get d ''text'' (PStr '''') in
         if truthy final_text then print [[Lit (envelope_emoji @ '':'')], [py_str final_text]] nl
         else [])
      else if event_type = PStr ''item'' then
        (let transcript = dict_get d ''item'' (PStr '''') in
         if truthy transcript
         then print [[Lit (nl @ ''Final transcript:'')], [py_str transcript]] nl
         else [])
      else if event_type = PStr ''error'' then
        print [[Lit ''Error event:''], [py_str (PDict d)]] nl
      else [])"

text \<open>
  The body of the inner \<open>try\<close> after \<open>json.loads\<close> has returned \<open>data\<close> (source lines
  120 to 155): \<open>Inl\<close> is the message of the exception raised, \<open>Inr\<close> what was
  printed. The only statement that can raise is the first, \<open>data.get("type", "")\<close>,
  before anything is printed: only a dict has the method \<open>get\<close>.
\<close>

definition handle_event :: "pyval \<Rightarrow> string + chunk list" where
  "handle_event data =
     (case data of
        PDict d \<Rightarrow>
          (let event_type = dict_get d ''type'' (PStr '''') in
           Inr (print [[Lit ''Event type:''], [py_str event_type]] nl @ dispatch d event_type))
      | _ \<Rightarrow> Inl (attribute_error data ''get''))"

text \<open>
  One iteration of the \<open>async for\<close> (source lines 118 to 161): what it prints.
  \<open>JSONDecodeError\<close> is passed over; any other exception, of \<open>json.loads\<close> or
  of the handling, is reported.
\<close>

definition process_message :: "wire \<Rightarrow> chunk list" where
  "process_message message =
     (case json_loads message of
        Inl JSONDecodeError \<Rightarrow> []
      | Inl (Other_exception e) \<Rightarrow> print [[Lit (''Error processing message: '' @ e)]] nl
      | Inr data \<Rightarrow>
          (case handle_event data of
             Inl e \<Rightarrow> print [[Lit (''Error processing message: '' @ e)]] nl
           | Inr out \<Rightarrow> out))"

primrec message_loop :: "wire list \<Rightarrow> chunk list" where
  "message_loop [] = []"
| "message_loop (m # ms) = process_message m @ message_loop ms"

text \<open>
  How the inbound sequence ends after its last message: the channel closes (the
  iteration stops), the iteration raises, or nothing more arrives and the channel stays
  open, so that the \<open>async for\<close> stays suspended.
\<close>

datatype stream_end = Closed | Broken raised | Silent

record inbound =
  messages :: "wire list"
  ending :: stream_end

text \<open>A task has finished, by return or by an exception that leaves it, or is still running.\<close>

datatype status = Finished outcome | Running

text \<open>
  \<open>handle_websocket_messages\<close>: what the task prints and how it ends. The outer
  \<open>except Exception\<close> reports and returns; a \<open>BaseException\<close> leaves the coroutine.
\<close>

definition handle_websocket_messages :: "inbound \<Rightarrow> chunk list \<times> status" where
  "handle_websocket_messages inb =
     (let out = message_loop (messages inb) in
      case ending inb of
        Closed \<Rightarrow> (out, Finished Returned)
      | Silent \<Rightarrow> (out, Running)
      | Broken (Exc e) \<Rightarrow>
          (out @ print [[Lit (''Error handling WebSocket messages: '' @ e)]] nl, Finished Returned)
      | Broken r \<Rightarrow> (out, Finished (Raised r)))"

section \<open>Uplink: \<open>stream_microphone\<close>\<close>

text \<open>
  \<open>base64.b64encode(b).decode('utf-8')\<close>: three bytes make four characters of the
  standard alphabet; a last group of one or two bytes is padded with \<open>=\<close>.
\<close>

definition b64_alphabet :: string where
  "b64_alphabet = ''ABCDEFGHIJKLMNOPQRSTUVWXYZabcdefghijklmnopqrstuvwxyz0123456789+/''"

definition b64_char :: "nat \<Rightarrow> char" where
  "b64_char i = b64_alphabet ! (i mod 64)"

fun b64encode :: "8 word list \<Rightarrow> string" where
  "b64encode [] = []"
| "b64encode [a] =
     (let n = unat a * 65536 in
      [b64_char (n div 262144), b64_char (n div 4096), CHR ''='', CHR ''=''])"
| "b64encode [a, b] =
     (let n = unat a * 65536 + unat b * 256 in
      [b64_char (n div 262144), b64_char (n div 4096), b64_char (n div 64), CHR ''=''])"
| "b64encode (a # b # c # bs) =
     (let n = unat a * 65536 + unat b * 256 + unat c in
      [b64_char (n div 262144), b64_char (n div 4096), b64_char (n div 64), b64_char n])
     @ b64encode bs"





text \<open>
  The object and its owner's view of the outside. \<open>stream\<close>, \<open>audio_interface\<close> and
  \<open>websocket\<close> say whether the attribute holds an object (is not \<open>None\<close>);
  \<open>device\<close> lists the calls made on the audio device, \<open>frames\<close> the buffers
  \<open>stream.read\<close> has returned, \<open>sent\<close> the objects whose \<open>json.dumps\<close> text
  \<open>websocket.send\<close> has sent (the call returned), \<open>failed_sends\<close> those on which
  the call raised, each oldest first.
\<close>

datatype device_call = Open_stream | Stop_stream | Close_stream | Terminate

record session =
  audio_interface :: bool
  stream :: bool
  is_streaming :: bool
  websocket :: bool
  device :: "device_call list"
  frames :: "8 word list list"
  sent :: "pyval list"
  failed_sends :: "pyval list"
  channel_open :: bool
  console :: "chunk list"

text \<open>\<open>__init__\<close>: a fresh object, nothing done yet.\<close>

definition init :: session where
  "init = \<lparr>audio_interface = True, stream = False, is_streaming = False, websocket = False,
           device = [], frames = [], sent = [], failed_sends = [], channel_open = False,
           console = []\<rparr>"

text \<open>
  What one iteration of the pump's loop meets: what \<open>stream.read\<close> does, what
  \<open>websocket.send\<close> does, and whether another party clears \<open>is_streaming\<close> while
  the iteration is suspended in the send.
\<close>

record cycle =
  frame :: "raised + 8 word list"
  send :: "raised option"
  stop :: bool

definition audio_message :: "8 word list \<Rightarrow> pyval" where
  "audio_message audio_data =
     PDict [(''type'', PStr ''input_audio_buffer.append''),
            (''audio'', PStr (b64encode audio_data))]"


text \<open>\<open>self.stream.read(CHUNK, exception_on_overflow=False)\<close>.\<close>

definition stream_read :: "session \<Rightarrow> cycle \<Rightarrow> raised + 8 word list" where
  "stream_read s c =
     (if stream s then frame c else Inl (Exc (attribute_error PNone ''read'')))"

text \<open>
  The \<open>while\<close> loop of \<open>stream_microphone\<close> (source lines 99 to 108) on a script of
  iterations. It ends by leaving the loop, by an exception, or is still running when
  the script is used up.
\<close>

fun mic_loop :: "cycle list \<Rightarrow> session \<Rightarrow> session \<times> status" where
  "mic_loop [] s =
     (s, if is_streaming s \<and> websocket s then Running else Finished Returned)"
| "mic_loop (c # cs) s =
     (if \<not> (is_streaming s \<and> websocket s) then (s, Finished Returned)
      else case stream_read s c of
        Inl r \<Rightarrow> (s, Finished (Raised r))
      | Inr audio_data \<Rightarrow>
          (let s1 = s\<lparr>frames := frames s @ [audio_data]\<rparr>;
               message = audio_message audio_data
           in case send c of
                Some r \<Rightarrow>
                  (s1\<lparr>failed_sends := failed_sends s1 @ [message]\<rparr>, Finished (Raised r))
              | None \<Rightarrow>
                  (let s2 = s1\<lparr>sent := sent s1 @ [message]\<rparr>
                   in mic_loop cs (if stop c then s2\<lparr>is_streaming := False\<rparr> else s2))))"

text \<open>\<open>stream_microphone\<close>: the loop inside \<open>try\<close> ... \<open>except Exception\<close>.\<close>

definition stream_microphone :: "cycle list \<Rightarrow> session \<Rightarrow> session \<times> status" where
  "stream_microphone cs s =
     (case mic_loop cs s of
        (s', Finished (Raised (Exc e))) \<Rightarrow>
          (s'\<lparr>console := console s' @ print [[Lit ''Audio streaming error:''], [Lit e]] nl,
              is_streaming := False\<rparr>,
           Finished Returned)
      | r \<Rightarrow> r)"

section \<open>The controller: \<open>cleanup\<close>, \<open>send_session_config\<close>, \<open>connect_and_run\<close>, \<open>run\<close>\<close>

definition cleanup :: "session \<Rightarrow> session" where
  "cleanup s =
     (let s1 = s\<lparr>is_streaming := False\<rparr>;
          s2 = (if stream s1 then s1\<lparr>device := device s1 @ [Stop_stream, Close_stream]\<rparr> else s1)
      in if audio_interface s2 then s2\<lparr>device := device s2 @ [Terminate]\<rparr> else s2)"

definition DEPLOYMENT_NAME :: string where
  "DEPLOYMENT_NAME = ''gpt-4o-mini-transcribe''"

definition session_config :: pyval where
  "session_config =
     PDict [(''type'', PStr ''transcription_session.update''),
            (''session'', PDict
              [(''input_audio_format'', PStr ''pcm16''),
               (''input_audio_transcription'', PDict
                  [(''model'', PStr DEPLOYMENT_NAME),
                   (''prompt'', PStr ''Respond in English.''),
                   (''language'', PStr ''en'')]),
               (''input_audio_noise_reduction'', PDict [(''type'', PStr ''near_field'')]),
               (''turn_detection'', PDict
                  [(''type'', PStr ''server_vad''),
                   (''threshold'', PFloat (1 / 2)),
                   (''prefix_padding_ms'', PInt 300),
                   (''silence_duration_ms'', PInt 200)])])]"

text \<open>
  \<open>send_session_config\<close>, given what \<open>websocket.send\<close> does: \<open>None\<close> when it
  returns, the exception when it raises.
\<close>

definition send_session_config :: "raised option \<Rightarrow> session \<Rightarrow> session \<times> outcome" where
  "send_session_config r s =
     (if \<not> websocket s then (s, Raised (Exc (attribute_error PNone ''send'')))
      else case r of
             None \<Rightarrow> (s\<lparr>sent := sent s @ [session_config]\<rparr>, Returned)
           | Some e \<Rightarrow> (s\<lparr>failed_sends := failed_sends s @ [session_config]\<rparr>, Raised e))"

text \<open>
  \<open>await asyncio.gather(audio_task, message_task)\<close>: given when each task ends and
  how, when the wait ends and how. It returns once both tasks have returned; the first
  exception to leave a task is raised at once, from the wait; otherwise it goes on
  waiting (\<open>None\<close>).
\<close>

fun gather :: "nat \<times> status \<Rightarrow> nat \<times> status \<Rightarrow> (nat \<times> outcome) option" where
  "gather (ta, Finished Returned) (tm, Finished Returned) = Some (max ta tm, Returned)"
| "gather (ta, Finished (Raised ra)) (tm, Finished (Raised rm)) =
     Some (if ta \<le> tm then (ta, Raised ra) else (tm, Raised rm))"
| "gather (ta, Finished (Raised ra)) (tm, _) = Some (ta, Raised ra)"
| "gather (ta, _) (tm, Finished (Raised rm)) = Some (tm, Raised rm)"
| "gather (ta, _) (tm, _) = None"

text \<open>
  The same wait when the waiting coroutine may itself be cancelled, at instant \<open>tc\<close>:
  \<open>CancelledError\<close> is raised from the \<open>await\<close> unless the wait has ended by then.
\<close>

definition await_gather ::
    "nat option \<Rightarrow> (nat \<times> outcome) option \<Rightarrow> (nat \<times> outcome) option" where
  "await_gather cancel g =
     (case cancel of
        None \<Rightarrow> g
      | Some tc \<Rightarrow>
          (case g of
             None \<Rightarrow> Some (tc, Raised CancelledError)
           | Some (t, how) \<Rightarrow> if t \<le> tc then Some (t, how) else Some (tc, Raised CancelledError)))"

text \<open>
  One run of the outside: whether \<open>websockets.connect\<close> and the send of the
  configuration raise, what the pump and the dispatcher meet, the instants at which
  the two tasks end (when they do), and the instant at which the waiting controller is
  cancelled (if it is).
\<close>

record world =
  open_stream :: "raised option"
  connect :: "raised option"
  config_send :: "raised option"
  mic :: "cycle list"
  server :: inbound
  audio_at :: nat
  message_at :: nat
  cancel_at :: "nat option"

text \<open>
  The end of \<open>connect_and_run\<close> (source lines 203 to 206), given how the \<open>try\<close> body
  ended: \<open>except Exception\<close> reports, \<open>finally\<close> cleans up, and what is not an
  \<open>Exception\<close> goes on to the caller.
\<close>

definition finish :: "outcome \<Rightarrow> session \<Rightarrow> session \<times> outcome" where
  "finish body s =
     (case body of
        Raised (Exc e) \<Rightarrow>
          (cleanup (s\<lparr>console := console s @ print [[Lit (''Connection error: '' @ e)]] nl\<rparr>),
           Returned)
      | _ \<Rightarrow> (cleanup s, body))"

text \<open>
  Source lines 198 to 201 and the exit of \<open>async with\<close>, given how the wait ended:
  \<open>CancelledError\<close> is passed over, and leaving the \<open>async with\<close> block closes the
  channel however the block is left.
\<close>

definition after_wait :: "outcome \<Rightarrow> session \<Rightarrow> session \<times> outcome" where
  "after_wait waited s =
     finish (case waited of Raised CancelledError \<Rightarrow> Returned | _ \<Rightarrow> waited)
            (s\<lparr>channel_open := False\<rparr>)"

text \<open>
  The two tasks of a run, started on session \<open>s\<close>: the session with the effects of
  both, and when and how each ends. The tasks share the console only; the pump's one
  line is put before the dispatcher's lines.
\<close>

definition run_tasks :: "world \<Rightarrow> session \<Rightarrow> session \<times> (nat \<times> status) \<times> (nat \<times> status)" where
  "run_tasks w s =
     (let (s1, audio) = stream_microphone (mic w) s;
          (out, message) = handle_websocket_messages (server w)
      in (s1\<lparr>console := console s1 @ out\<rparr>, (audio_at w, audio), (message_at w, message)))"

text \<open>The wait of the controller on the two tasks: when it ends and how, if it ends.\<close>

definition session_wait :: "world \<Rightarrow> session \<Rightarrow> (nat \<times> outcome) option" where
  "session_wait w s =
     (let (s', audio_task, message_task) = run_tasks w s
      in await_gather (cancel_at w) (gather audio_task message_task))"

text \<open>
  The session once the channel is open (source lines 169 and 183 to 186), when the
  configuration is about to be sent.
\<close>

definition on_connect :: "session \<Rightarrow> session" where
  "on_connect s =
     s\<lparr>channel_open := True, websocket := True, is_streaming := True,
       console := console s @ print [[Lit ''Connecting to Azure OpenAI Realtime API...'']] nl @
                  print [[Lit ''Connected! Start speaking...'']] nl\<rparr>"

text \<open>\<open>connect_and_run\<close>; \<open>None\<close> when the wait never ends.\<close>

definition connect_and_run :: "world \<Rightarrow> session \<Rightarrow> (session \<times> outcome) option" where
  "connect_and_run w s =
     (case connect w of
        Some r \<Rightarrow>
          Some (finish (Raised r)
                  (s\<lparr>console := console s @
                       print [[Lit ''Connecting to Azure OpenAI Realtime API...'']] nl\<rparr>))
      | None \<Rightarrow>
          (case send_session_config (config_send w) (on_connect s) of
             (s3, Raised r) \<Rightarrow> Some (finish (Raised r) (s3\<lparr>channel_open := False\<rparr>))
           | (s3, Returned) \<Rightarrow>
               (case session_wait w s3 of
                  None \<Rightarrow> None
                | Some (t, waited) \<Rightarrow> Some (after_wait waited (fst (run_tasks w s3))))))"

text \<open>\<open>setup_audio_stream\<close>, given what \<open>audio_interface.open\<close> does.\<close>

definition setup_audio_stream :: "raised option \<Rightarrow> session \<Rightarrow> session \<times> outcome" where
  "setup_audio_stream r s =
     (case r of
        Some e \<Rightarrow> (s\<lparr>device := device s @ [Open_stream]\<rparr>, Raised e)
      | None \<Rightarrow> (s\<lparr>device := device s @ [Open_stream], stream := True\<rparr>, Returned))"

text \<open>The end of \<open>run\<close> (source lines 213 to 216), given how the \<open>try\<close> body ended.\<close>

definition run_finish :: "outcome \<Rightarrow> session \<Rightarrow> session \<times> outcome" where
  "run_finish body s =
     (case body of
        Raised KeyboardInterrupt \<Rightarrow>
          (cleanup (s\<lparr>console := console s @ print [[Lit ''Interrupted by user. Closing...'']] nl\<rparr>),
           Returned)
      | _ \<Rightarrow> (cleanup s, body))"

definition run :: "world \<Rightarrow> session \<Rightarrow> (session \<times> outcome) option" where
  "run w s =
     (case setup_audio_stream (open_stream w) s of
        (s1, Raised r) \<Rightarrow> Some (run_finish (Raised r) s1)
      | (s1, Returned) \<Rightarrow>
          (case connect_and_run w s1 of
             None \<Rightarrow> None
           | Some (s2, body) \<Rightarrow> Some (run_finish body s2)))"

section \<open>Sample runs\<close>

text \<open>
  The audio device delivers one frame and then fails on the second read, at instant 1;
  the service sends nothing and closes the channel at instant 5.
\<close>

definition device_failure_world :: world where
  "device_failure_world =
     \<lparr>open_stream = None, connect = None, config_send = None,
      mic = [\<lparr>frame = Inr [0x4D, 0x61, 0x6E], send = None, stop = False\<rparr>,
             \<lparr>frame = Inl (Exc ''Stream closed''), send = None, stop = False\<rparr>],
      server = \<lparr>messages = [], ending = Closed\<rparr>,
      audio_at = 1, message_at = 5, cancel_at = None\<rparr>"

text \<open>The same, but the service keeps the channel open and stays silent.\<close>

definition silent_service_world :: world where
  "silent_service_world =
     device_failure_world\<lparr>server := \<lparr>messages = [], ending = Silent\<rparr>\<rparr>"

text \<open>
  Two frames are sent, the second send fails at instant 2 because the service has
  closed the channel at instant 1, after one event.
\<close>

definition channel_closed_world :: world where
  "channel_closed_world =
     \<lparr>open_stream = None, connect = None, config_send = None,
      mic = [\<lparr>frame = Inr [0x4D, 0x61, 0x6E], send = None, stop = False\<rparr>,
             \<lparr>frame = Inr [0x4D, 0x61], send = Some (Exc ''no close frame received or sent''),
              stop = False\<rparr>],
      server = \<lparr>messages = [Json_text (PDict [(''type'', PStr ''item''), (''item'', PStr ''x'')])],
                ending = Closed\<rparr>,
      audio_at = 2, message_at = 1, cancel_at = None\<rparr>"

text \<open>
  The user interrupts at instant 3: the controller's task is cancelled while it waits,
  and with it the two tasks, the pump in its second send and the dispatcher in its
  iteration.
\<close>

definition cancelled_world :: world where
  "cancelled_world =
     \<lparr>open_stream = None, connect = None, config_send = None,
      mic = [\<lparr>frame = Inr [0x4D, 0x61, 0x6E], send = None, stop = False\<rparr>,
             \<lparr>frame = Inr [0x4D, 0x61], send = Some CancelledError, stop = False\<rparr>],
      server = \<lparr>messages = [], ending = Broken CancelledError\<rparr>,
      audio_at = 3, message_at = 3, cancel_at = Some 3\<rparr>"

section \<open>Properties of the dispatcher\<close>

lemma message_loop_append: "message_loop (xs @ ys) = message_loop xs @ message_loop ys"
  by (induction xs) simp_all




lemma ending_unchanged:
  "snd (handle_websocket_messages \<lparr>messages = xs, ending = en\<rparr>) =
   snd (handle_websocket_messages \<lparr>messages = ys, ending = en\<rparr>)"
  by (simp add: handle_websocket_messages_def Let_def split: stream_end.split raised.split)

text \<open>
  C3, as the claim states it, fails on a message that is not JSON-decodable because
  \<open>json.loads\<close> raises something other than \<open>JSONDecodeError\<close>, here the
  \<open>UnicodeDecodeError\<close> of the binary frame that holds the one byte 0x80: the message is
  not passed over in silence, a line reports it.
\<close>

theorem undecodable_message_counterexample:
  "process_message
     (Loads_raises (CHR 0x27 # ''utf-8'' @ CHR 0x27 #
        '' codec can't decode byte 0x80 in position 0: invalid start byte'')) =
   [Lit (''Error processing message: '' @ CHR 0x27 # ''utf-8'' @ CHR 0x27 #
        '' codec can't decode byte 0x80 in position 0: invalid start byte''), Lit nl] \<and>
   process_message
     (Loads_raises (CHR 0x27 # ''utf-8'' @ CHR 0x27 #
        '' codec can't decode byte 0x80 in position 0: invalid start byte'')) \<noteq> []"
  by (simp add: process_message_def print_def)

text \<open>
  C3, amended. A message on which \<open>json.loads\<close> raises \<open>JSONDecodeError\<close> prints
  nothing; a message on which it raises another \<open>Exception\<close> is reported on one line,
  \<open>Error processing message:\<close> with the exception's text. In both cases the loop goes
  on: the messages before and after print what they print without it, the message
  right after it is processed, and the task ends as it does on the sequence without
  that message.
\<close>

theorem malformed_message_discarded:
  "(json_loads m = Inl JSONDecodeError \<longrightarrow>
      process_message m = [] \<and>
      message_loop (pre @ m # v # post) =
        message_loop pre @ process_message v @ message_loop post \<and>
      handle_websocket_messages \<lparr>messages = pre @ m # post, ending = en\<rparr> =
      handle_websocket_messages \<lparr>messages = pre @ post, ending = en\<rparr>) \<and>
   (json_loads m = Inl (Other_exception e) \<longrightarrow>
      process_message m = [Lit (''Error processing message: '' @ e), Lit nl] \<and>
      message_loop (pre @ m # v # post) =
        message_loop pre @ [Lit (''Error processing message: '' @ e), Lit nl] @
        process_message v @ message_loop post \<and>
      snd (handle_websocket_messages \<lparr>messages = pre @ m # post, ending = en\<rparr>) =
      snd (handle_websocket_messages \<lparr>messages = pre @ post, ending = en\<rparr>))"
  by (simp add: process_message_def message_loop_append print_def ending_unchanged)
     (simp add: handle_websocket_messages_def message_loop_append process_message_def Let_def)

theorem malformed_message_discarded_witness:
  "json_loads (Bad_text ''{bad'') = Inl JSONDecodeError \<and>
   process_message (Bad_text ''{bad'') = [] \<and>
   message_loop
     ([] @ Bad_text ''{bad'' #
            Json_text (PDict [(''type'', PStr ''item''), (''item'', PStr ''x'')]) # []) =
   [Lit ''Event type:'', Lit '' '', Lit ''item'', Lit nl,
    Lit (nl @ ''Final transcript:''), Lit '' '', Lit ''x'', Lit nl] \<and>
   json_loads (Loads_raises ''maximum recursion depth exceeded'') =
     Inl (Other_exception ''maximum recursion depth exceeded'') \<and>
   message_loop
     ([] @ Loads_raises ''maximum recursion depth exceeded'' #
            Json_text (PDict [(''type'', PStr ''item''), (''item'', PStr ''x'')]) # []) =
   [Lit ''Error processing message: maximum recursion depth exceeded'', Lit nl,
    Lit ''Event type:'', Lit '' '', Lit ''item'', Lit nl,
    Lit (nl @ ''Final transcript:''), Lit '' '', Lit ''x'', Lit nl]"
  using malformed_message_discarded
          [of "Bad_text ''{bad''" "[]"
              "Json_text (PDict [(''type'', PStr ''item''), (''item'', PStr ''x'')])" "[]" Closed
              "''none''"]
        malformed_message_discarded
          [of "Loads_raises ''maximum recursion depth exceeded''" "[]"
              "Json_text (PDict [(''type'', PStr ''item''), (''item'', PStr ''x'')])" "[]" Closed
              "''maximum recursion depth exceeded''"]
  by (simp add: process_message_def handle_event_def print_def dispatch_def dict_get_def Let_def)

text \<open>
  C6. When the handling of a decoded message raises, the failure is reported on a line
  of its own and the loop goes on: the messages before and after print what they print
  without it, and the task ends as it does on the sequence without that message.
\<close>

theorem event_failure_contained:
  "json_loads m = Inr data \<Longrightarrow> handle_event data = Inl e \<Longrightarrow>
   message_loop (pre @ m # post) =
     message_loop pre @ [Lit (''Error processing message: '' @ e), Lit nl] @ message_loop post \<and>
   snd (handle_websocket_messages \<lparr>messages = pre @ m # post, ending = en\<rparr>) =
   snd (handle_websocket_messages \<lparr>messages = pre @ post, ending = en\<rparr>)"
  by (simp add: process_message_def message_loop_append print_def ending_unchanged)

theorem event_failure_contained_witness:
  "json_loads (Json_text (PList [PInt 1])) = Inr (PList [PInt 1]) \<and>
   handle_event (PList [PInt 1]) = Inl (attribute_error (PList [PInt 1]) ''get'') \<and>
   message_loop
     ([] @ Json_text (PList [PInt 1]) # [Json_text (PDict [(''type'', PStr ''valid_message'')])]) =
   [Lit (''Error processing message: '' @ attribute_error (PList [PInt 1]) ''get''), Lit nl,
    Lit ''Event type:'', Lit '' '', Lit ''valid_message'', Lit nl]"
  using event_failure_contained
          [of "Json_text (PList [PInt 1])" "PList [PInt 1]"
              "attribute_error (PList [PInt 1]) ''get''" "[]"
              "[Json_text (PDict [(''type'', PStr ''valid_message'')])]" Closed]
  by (simp add: process_message_def handle_event_def print_def dispatch_def dict_get_def Let_def)







section \<open>Properties of the pump\<close>

subsection \<open>Base64: decoding what was encoded gives the bytes back\<close>










subsection \<open>The loop\<close>


lemma mic_loop_keeps:
  "device (fst (mic_loop cs s)) = device s \<and> stream (fst (mic_loop cs s)) = stream s \<and>
   audio_interface (fst (mic_loop cs s)) = audio_interface s \<and>
   websocket (fst (mic_loop cs s)) = websocket s \<and>
   channel_open (fst (mic_loop cs s)) = channel_open s \<and>
   console (fst (mic_loop cs s)) = console s"
  by (induction cs arbitrary: s) (simp_all add: Let_def split: sum.split option.split)

lemma stream_microphone_fields:
  "frames (fst (stream_microphone cs s)) = frames (fst (mic_loop cs s)) \<and>
   sent (fst (stream_microphone cs s)) = sent (fst (mic_loop cs s)) \<and>
   failed_sends (fst (stream_microphone cs s)) = failed_sends (fst (mic_loop cs s)) \<and>
   (snd (stream_microphone cs s) = Running) = (snd (mic_loop cs s) = Running) \<and>
   device (fst (stream_microphone cs s)) = device (fst (mic_loop cs s)) \<and>
   stream (fst (stream_microphone cs s)) = stream (fst (mic_loop cs s)) \<and>
   audio_interface (fst (stream_microphone cs s)) = audio_interface (fst (mic_loop cs s)) \<and>
   websocket (fst (stream_microphone cs s)) = websocket (fst (mic_loop cs s)) \<and>
   channel_open (fst (stream_microphone cs s)) = channel_open (fst (mic_loop cs s))"
  by (simp add: stream_microphone_def
           split: prod.split status.split outcome.split raised.split)

lemma stream_microphone_no_exc: "snd (stream_microphone cs s) \<noteq> Finished (Raised (Exc e))"
  by (simp add: stream_microphone_def
           split: prod.split status.split outcome.split raised.split)

lemma mic_loop_inactive:
  "\<not> (is_streaming s \<and> websocket s) \<Longrightarrow> mic_loop cs s = (s, Finished Returned)"
  by (cases cs) auto

lemma mic_loop_stop: "stop c \<Longrightarrow> mic_loop (pre @ c # post) s = mic_loop (pre @ [c]) s"
proof (induction pre arbitrary: s)
  case Nil
  then show ?case
    by (simp add: Let_def mic_loop_inactive split: sum.split option.split)
next
  case (Cons a pre)
  then show ?case by (simp add: Let_def split: sum.split option.split)
qed

text \<open>
  C7. When the read of a frame or the send of its message raises an \<open>Exception\<close> in an
  iteration of the running loop, \<open>stream_microphone\<close> returns normally with the active
  flag false, having reported the failure; the rest of the script is not touched (no
  retry), so the run is the run on that iteration alone.
\<close>

theorem pump_failure_boundary:
  "is_streaming s \<Longrightarrow> websocket s \<Longrightarrow>
   stream_read s c = Inl (Exc e) \<or>
     (\<exists>audio_data. stream_read s c = Inr audio_data \<and> send c = Some (Exc e)) \<Longrightarrow>
   snd (stream_microphone (c # cs) s) = Finished Returned \<and>
   \<not> is_streaming (fst (stream_microphone (c # cs) s)) \<and>
   stream_microphone (c # cs) s = stream_microphone [c] s \<and>
   console (fst (stream_microphone (c # cs) s)) =
     console s @ [Lit ''Audio streaming error:'', Lit '' '', Lit e, Lit nl]"
proof -
  assume active: "is_streaming s" "websocket s"
  assume "stream_read s c = Inl (Exc e) \<or>
     (\<exists>audio_data. stream_read s c = Inr audio_data \<and> send c = Some (Exc e))"
  then show ?thesis
  proof
    assume "stream_read s c = Inl (Exc e)"
    with active show ?thesis
      by (simp add: stream_microphone_def print_def)
  next
    assume "\<exists>audio_data. stream_read s c = Inr audio_data \<and> send c = Some (Exc e)"
    then obtain audio_data where "stream_read s c = Inr audio_data" "send c = Some (Exc e)"
      by blast
    with active show ?thesis
      by (simp add: stream_microphone_def print_def Let_def)
  qed
qed

theorem pump_failure_boundary_witness:
  "is_streaming (init\<lparr>stream := True, websocket := True, is_streaming := True\<rparr>) \<and>
   websocket (init\<lparr>stream := True, websocket := True, is_streaming := True\<rparr>) \<and>
   stream_read (init\<lparr>stream := True, websocket := True, is_streaming := True\<rparr>)
     \<lparr>frame = Inl (Exc ''Stream closed''), send = None, stop = False\<rparr> =
     Inl (Exc ''Stream closed'') \<and>
   stream_microphone
     (\<lparr>frame = Inl (Exc ''Stream closed''), send = None, stop = False\<rparr> #
      [\<lparr>frame = Inr [0x4D], send = None, stop = False\<rparr>])
     (init\<lparr>stream := True, websocket := True, is_streaming := True\<rparr>) =
   (init\<lparr>stream := True, websocket := True, is_streaming := False,
         console := [Lit ''Audio streaming error:'', Lit '' '', Lit ''Stream closed'', Lit nl]\<rparr>,
    Finished Returned)"
  using pump_failure_boundary
          [of "init\<lparr>stream := True, websocket := True, is_streaming := True\<rparr>"
              "\<lparr>frame = Inl (Exc ''Stream closed''), send = None, stop = False\<rparr>"
              "''Stream closed''"
              "[\<lparr>frame = Inr [0x4D], send = None, stop = False\<rparr>]"]
  by (simp add: stream_microphone_def stream_read_def init_def print_def)

text \<open>
  C8. The pump begins no iteration while the active flag is false: started with the
  flag false it returns at once, having read and sent nothing. When another party
  clears the flag during an iteration, that iteration's send is the last: the pump
  returns at the next test of the flag, and the iterations that would have followed
  are not begun.
\<close>

theorem pump_stops_when_inactive:
  "(\<not> is_streaming s \<longrightarrow> stream_microphone cs s = (s, Finished Returned)) \<and>
   (is_streaming s \<and> websocket s \<and> stream_read s c = Inr audio_data \<and> send c = None \<and> stop c \<longrightarrow>
      stream_microphone (c # post) s =
        (s\<lparr>frames := frames s @ [audio_data], sent := sent s @ [audio_message audio_data],
           is_streaming := False\<rparr>, Finished Returned)) \<and>
   (stop c \<longrightarrow> stream_microphone (pre @ c # post) s = stream_microphone (pre @ [c]) s)"
proof (intro conjI impI)
  assume "\<not> is_streaming s"
  then show "stream_microphone cs s = (s, Finished Returned)"
    by (simp add: stream_microphone_def mic_loop_inactive)
next
  assume "is_streaming s \<and> websocket s \<and> stream_read s c = Inr audio_data \<and>
          send c = None \<and> stop c"
  then show "stream_microphone (c # post) s =
        (s\<lparr>frames := frames s @ [audio_data], sent := sent s @ [audio_message audio_data],
           is_streaming := False\<rparr>, Finished Returned)"
    by (simp add: stream_microphone_def mic_loop_inactive Let_def)
next
  assume "stop c"
  then have "mic_loop (pre @ c # post) s = mic_loop (pre @ [c]) s"
    by (rule mic_loop_stop)
  then show "stream_microphone (pre @ c # post) s = stream_microphone (pre @ [c]) s"
    unfolding stream_microphone_def by (rule arg_cong)
qed

theorem pump_stops_when_inactive_witness:
  "\<not> is_streaming init \<and>
   stream_microphone [\<lparr>frame = Inr [0x4D], send = None, stop = False\<rparr>] init =
     (init, Finished Returned) \<and>
   is_streaming (init\<lparr>stream := True, websocket := True, is_streaming := True\<rparr>) \<and>
   websocket (init\<lparr>stream := True, websocket := True, is_streaming := True\<rparr>) \<and>
   stream_read (init\<lparr>stream := True, websocket := True, is_streaming := True\<rparr>)
     \<lparr>frame = Inr [0x4D], send = None, stop = True\<rparr> = Inr [0x4D] \<and>
   send \<lparr>frame = Inr [0x4D], send = None, stop = True\<rparr> = None \<and>
   stop \<lparr>frame = Inr [0x4D], send = None, stop = True\<rparr> \<and>
   stream_microphone
     (\<lparr>frame = Inr [0x4D], send = None, stop = True\<rparr> #
      [\<lparr>frame = Inr [0x61], send = None, stop = False\<rparr>])
     (init\<lparr>stream := True, websocket := True, is_streaming := True\<rparr>) =
   (init\<lparr>stream := True, websocket := True, is_streaming := False,
         frames := [[0x4D]], sent := [audio_message [0x4D]]\<rparr>, Finished Returned) \<and>
   stream_microphone
     ([] @ \<lparr>frame = Inr [0x4D], send = None, stop = True\<rparr> #
      [\<lparr>frame = Inr [0x61], send = None, stop = False\<rparr>])
     (init\<lparr>stream := True, websocket := True, is_streaming := True\<rparr>) =
   stream_microphone
     ([] @ [\<lparr>frame = Inr [0x4D], send = None, stop = True\<rparr>])
     (init\<lparr>stream := True, websocket := True, is_streaming := True\<rparr>)"
  using pump_stops_when_inactive
          [of init "[\<lparr>frame = Inr [0x4D], send = None, stop = False\<rparr>]"
              "\<lparr>frame = Inr [0x4D], send = None, stop = True\<rparr>" "[0x4D]" "[]" "[]"]
        pump_stops_when_inactive
          [of "init\<lparr>stream := True, websocket := True, is_streaming := True\<rparr>" "[]"
              "\<lparr>frame = Inr [0x4D], send = None, stop = True\<rparr>" "[0x4D]"
              "[\<lparr>frame = Inr [0x61], send = None, stop = False\<rparr>]" "[]"]
  by (simp add: stream_microphone_def stream_read_def init_def)

section \<open>Properties of the controller\<close>

lemma cleanup_fields:
  "is_streaming (cleanup s) = False \<and> stream (cleanup s) = stream s \<and>
   audio_interface (cleanup s) = audio_interface s \<and> websocket (cleanup s) = websocket s \<and>
   channel_open (cleanup s) = channel_open s \<and> frames (cleanup s) = frames s \<and>
   sent (cleanup s) = sent s \<and> failed_sends (cleanup s) = failed_sends s \<and>
   console (cleanup s) = console s \<and>
   device (cleanup s) =
     device s @ (if stream s then [Stop_stream, Close_stream] else []) @
     (if audio_interface s then [Terminate] else [])"
  by (simp add: cleanup_def Let_def)

lemma finish_fields:
  "is_streaming (fst (finish body s)) = False \<and>
   channel_open (fst (finish body s)) = channel_open s \<and>
   frames (fst (finish body s)) = frames s \<and> sent (fst (finish body s)) = sent s \<and>
   failed_sends (fst (finish body s)) = failed_sends s \<and>
   device (fst (finish body s)) =
     device s @ (if stream s then [Stop_stream, Close_stream] else []) @
     (if audio_interface s then [Terminate] else [])"
  by (simp add: finish_def cleanup_fields split: outcome.split raised.split)

lemma after_wait_fields:
  "is_streaming (fst (after_wait waited s)) = False \<and>
   channel_open (fst (after_wait waited s)) = False \<and>
   frames (fst (after_wait waited s)) = frames s \<and> sent (fst (after_wait waited s)) = sent s \<and>
   failed_sends (fst (after_wait waited s)) = failed_sends s \<and>
   device (fst (after_wait waited s)) =
     device s @ (if stream s then [Stop_stream, Close_stream] else []) @
     (if audio_interface s then [Terminate] else [])"
  by (simp add: after_wait_def finish_fields)

lemma run_tasks_keeps:
  "device (fst (run_tasks w s)) = device s \<and> stream (fst (run_tasks w s)) = stream s \<and>
   audio_interface (fst (run_tasks w s)) = audio_interface s"
  using stream_microphone_fields[of "mic w" s] mic_loop_keeps[of "mic w" s]
  by (cases "stream_microphone (mic w) s"; cases "handle_websocket_messages (server w)")
     (simp add: run_tasks_def)


text \<open>
  C4. However the wait ends, by return or by any exception, what follows it leaves the
  active flag false and the channel closed and makes the release calls on the audio
  device: stop and close of the stream when there is one, then terminate. And when
  the channel has been opened and the configuration sent, \<open>connect_and_run\<close> returns
  as soon as the wait has ended, in such a state.
\<close>

theorem teardown_unconditional:
  "\<not> is_streaming (fst (after_wait waited0 s0)) \<and>
   \<not> channel_open (fst (after_wait waited0 s0)) \<and>
   device (fst (after_wait waited0 s0)) =
     device s0 @ (if stream s0 then [Stop_stream, Close_stream] else []) @
     (if audio_interface s0 then [Terminate] else []) \<and>
   (connect w = None \<and> config_send w = None \<and>
    session_wait w (fst (send_session_config None (on_connect s))) = Some (t, waited) \<longrightarrow>
      (\<exists>s' how. connect_and_run w s = Some (s', how) \<and>
         \<not> is_streaming s' \<and> \<not> channel_open s' \<and>
         device s' =
           device s @ (if stream s then [Stop_stream, Close_stream] else []) @
           (if audio_interface s then [Terminate] else [])))"
proof (intro conjI impI)
  let ?s3 = "fst (send_session_config None (on_connect s))"
  assume h: "connect w = None \<and> config_send w = None \<and> session_wait w ?s3 = Some (t, waited)"
  have cfg: "send_session_config None (on_connect s) = (?s3, Returned)"
    by (simp add: send_session_config_def on_connect_def)
  have s3: "device ?s3 = device s" "stream ?s3 = stream s" "audio_interface ?s3 = audio_interface s"
    by (simp_all add: send_session_config_def on_connect_def)
  let ?s5 = "fst (run_tasks w ?s3)"
  obtain s3 where s3_def: "s3 = ?s3" by simp
  have "send_session_config (config_send w) (on_connect s) = (s3, Returned)"
       "session_wait w s3 = Some (t, waited)"
    using h cfg s3_def by simp_all
  then have "connect_and_run w s = Some (after_wait waited (fst (run_tasks w s3)))"
    using h by (simp add: connect_and_run_def)
  then have run: "connect_and_run w s = Some (after_wait waited ?s5)"
    using s3_def by simp
  have "\<not> is_streaming (fst (after_wait waited ?s5))"
       "\<not> channel_open (fst (after_wait waited ?s5))"
       "device (fst (after_wait waited ?s5)) =
          device s @ (if stream s then [Stop_stream, Close_stream] else []) @
          (if audio_interface s then [Terminate] else [])"
    using run_tasks_keeps[of w ?s3] s3 by (simp_all add: after_wait_fields)
  with run show "\<exists>s' how. connect_and_run w s = Some (s', how) \<and>
         \<not> is_streaming s' \<and> \<not> channel_open s' \<and>
         device s' =
           device s @ (if stream s then [Stop_stream, Close_stream] else []) @
           (if audio_interface s then [Terminate] else [])"
    by (metis prod.collapse)
qed (simp_all add: after_wait_fields)

theorem teardown_unconditional_witness:
  "connect cancelled_world = None \<and> config_send cancelled_world = None \<and>
   session_wait cancelled_world
     (fst (send_session_config None (on_connect (init\<lparr>stream := True\<rparr>)))) =
     Some (3, Raised CancelledError) \<and>
   (\<exists>s' how. connect_and_run cancelled_world (init\<lparr>stream := True\<rparr>) = Some (s', how) \<and>
      \<not> is_streaming s' \<and> \<not> channel_open s' \<and>
      device s' = [Stop_stream, Close_stream, Terminate])"
proof -
  have w: "connect cancelled_world = None" "config_send cancelled_world = None"
    by (simp_all add: cancelled_world_def)
  have wait: "session_wait cancelled_world
     (fst (send_session_config None (on_connect (init\<lparr>stream := True\<rparr>)))) =
     Some (3, Raised CancelledError)"
    by (simp add: cancelled_world_def session_wait_def run_tasks_def stream_microphone_def
          stream_read_def send_session_config_def on_connect_def init_def await_gather_def
          handle_websocket_messages_def Let_def)
  from teardown_unconditional
         [of Returned init cancelled_world "init\<lparr>stream := True\<rparr>" 3 "Raised CancelledError"]
       w wait
  have "\<exists>s' how. connect_and_run cancelled_world (init\<lparr>stream := True\<rparr>) = Some (s', how) \<and>
      \<not> is_streaming s' \<and> \<not> channel_open s' \<and>
      device s' = device (init\<lparr>stream := True\<rparr>) @
         (if stream (init\<lparr>stream := True\<rparr>) then [Stop_stream, Close_stream] else []) @
         (if audio_interface (init\<lparr>stream := True\<rparr>) then [Terminate] else [])"
    by blast
  then have "\<exists>s' how. connect_and_run cancelled_world (init\<lparr>stream := True\<rparr>) = Some (s', how) \<and>
      \<not> is_streaming s' \<and> \<not> channel_open s' \<and>
      device s' = [Stop_stream, Close_stream, Terminate]"
    by (simp add: init_def)
  with w wait show ?thesis by blast
qed









text \<open>
  C1. In the first sample run the audio task has returned at instant 1, after the
  device failed, and the wait of the controller ends at instant 5 only, when the
  message task returns too. In the second, where the service stays silent, the audio
  task has returned as well, and the wait never ends: \<open>connect_and_run\<close> and \<open>run\<close>
  do not return, and the teardown is not reached.
\<close>

theorem wait_needs_both_tasks:
  "snd (run_tasks device_failure_world
         (fst (send_session_config None (on_connect (init\<lparr>stream := True\<rparr>))))) =
     ((1, Finished Returned), (5, Finished Returned)) \<and>
   session_wait device_failure_world
     (fst (send_session_config None (on_connect (init\<lparr>stream := True\<rparr>)))) =
     Some (5, Returned) \<and>
   snd (run_tasks silent_service_world
         (fst (send_session_config None (on_connect (init\<lparr>stream := True\<rparr>))))) =
     ((1, Finished Returned), (5, Running)) \<and>
   session_wait silent_service_world
     (fst (send_session_config None (on_connect (init\<lparr>stream := True\<rparr>)))) = None \<and>
   connect_and_run silent_service_world (init\<lparr>stream := True\<rparr>) = None \<and>
   run silent_service_world init = None"
  by (simp add: device_failure_world_def silent_service_world_def run_def setup_audio_stream_def
        connect_and_run_def session_wait_def run_tasks_def stream_microphone_def stream_read_def
        send_session_config_def on_connect_def init_def await_gather_def
        handle_websocket_messages_def Let_def)

text \<open>
  C5. A second \<open>cleanup\<close> makes the release calls again: the handles are never
  cleared, so the guards on them still hold, and stop, close and terminate are
  called a second time on the same stream and interface. A run that returns has done
  so: \<open>connect_and_run\<close> and \<open>run\<close> each call \<open>cleanup\<close> in their \<open>finally\<close>.
\<close>

theorem cleanup_releases_again:
  "cleanup (cleanup s) =
     (cleanup s)\<lparr>device := device (cleanup s) @
        (if stream s then [Stop_stream, Close_stream] else []) @
        (if audio_interface s then [Terminate] else [])\<rparr> \<and>
   device (cleanup (cleanup (init\<lparr>stream := True\<rparr>))) =
     [Stop_stream, Close_stream, Terminate, Stop_stream, Close_stream, Terminate] \<and>
   map_option (\<lambda>r. device (fst r)) (run channel_closed_world init) =
     Some [Open_stream, Stop_stream, Close_stream, Terminate,
           Stop_stream, Close_stream, Terminate]"
  by (simp add: channel_closed_world_def run_def setup_audio_stream_def run_finish_def
        connect_and_run_def session_wait_def run_tasks_def stream_microphone_def stream_read_def
        send_session_config_def on_connect_def init_def await_gather_def
        handle_websocket_messages_def after_wait_def finish_def cleanup_def Let_def)

end
